theory Spec2Isabelle
  imports Complex_Main
begin

section \<open>Crystal parameters, lattice vectors and structure functions (crystal.py)\<close>

text \<open>
  The module holds two classes, \<open>Detector\<close> and its subclass \<open>Crystal\<close>, and the
  function \<open>get_crystal\<close>. Numbers are modelled as exact reals and complex numbers:
  rounding and overflow of the machine arithmetic are outside the model. A division whose
  denominator is zero has no real value; numpy yields \<open>inf\<close> or \<open>nan\<close> there and goes
  on, so such a quotient is \<open>None\<close> here and every value computed from it is \<open>None\<close>
  as well. Exceptions are values of the type \<open>error\<close>. The properties proved below
  are those that do not turn on rounding: which formula a method computes, which
  exceptions the constructors raise, what \<open>get_crystal\<close> returns for which name, the
  shapes of the stored arrays, and that the methods write no attribute.
\<close>

subsection \<open>Errors\<close>

datatype error =
    Exception string   \<comment> \<open>\<open>raise Exception(msg)\<close>\<close>
  | KeyError string    \<comment> \<open>subscript of a dict with a key it does not have\<close>
  | IndexError         \<comment> \<open>subscript of an array out of range\<close>

fun bind_err :: "error + 'a \<Rightarrow> ('a \<Rightarrow> error + 'b) \<Rightarrow> error + 'b" where
  "bind_err (Inl e) f = Inl e"
| "bind_err (Inr x) f = f x"

subsection \<open>Vectors\<close>

type_synonym vec = "real \<times> real \<times> real"

text \<open>The elementwise arithmetic of numpy arrays on 3-vectors.\<close>

fun smult :: "real \<Rightarrow> vec \<Rightarrow> vec" where
  "smult s (x, y, z) = (s * x, s * y, s * z)"

fun vadd :: "vec \<Rightarrow> vec \<Rightarrow> vec" where
  "vadd (x, y, z) (x', y', z') = (x + x', y + y', z + z')"

fun vdiv :: "vec \<Rightarrow> real \<Rightarrow> vec option" where
  "vdiv (x, y, z) d = (if d = 0 then None else Some (x / d, y / d, z / d))"

text \<open>
  Modelled from the spec: \<open>dot\<close> and \<open>cross\<close> come from \<open>math_helper\<close>, which is
  not among the sources; they are the scalar product and the vector product of
  3-vectors, as the spec's \<open>a1 . (a2 x a3)\<close> reads them.
\<close>

fun dot :: "vec \<Rightarrow> vec \<Rightarrow> real" where
  "dot (x, y, z) (x', y', z') = x * x' + y * y' + z * z'"

fun cross :: "vec \<Rightarrow> vec \<Rightarrow> vec" where
  "cross (x, y, z) (x', y', z') = (y * z' - z * y', z * x' - x * z', x * y' - y * x')"

subsection \<open>The reference data\<close>

text \<open>
  \<open>det_params.json\<close> is not among the sources: the loaded mapping is a parameter of
  the model. It maps a lower-case material name to an entry; an entry is a dict of which
  the constructor reads twelve keys. A key the entry lacks is \<open>None\<close>. JSON numbers are
  reals, JSON arrays of numbers are lists of reals.
\<close>

record det_info =
  k_iso :: "real option"
  k_z :: "real list option"
  k_n :: "real list option"
  k_m :: "real list option"
  k_frac :: "real list option"
  k_lattice_const :: "real option"
  k_cell_volume :: "real option"
  k_atomic_radius :: "real option"
  k_er_min :: "real option"
  k_er_max :: "real option"
  k_bg :: "real option"
  k_bg_un :: "real option"

type_synonym det_file = "string \<rightharpoonup> det_info"

text \<open>\<open>d[k]\<close> on a dict: the value, or \<open>KeyError\<close>.\<close>

definition item :: "'a option \<Rightarrow> string \<Rightarrow> error + 'a" where
  "item v k = (case v of None \<Rightarrow> Inl (KeyError k) | Some x \<Rightarrow> Inr x)"

text \<open>
  \<open>str.lower\<close> on ASCII strings: the letters \<open>A\<close> to \<open>Z\<close> (codes 65 to 90) move to
  \<open>a\<close> to \<open>z\<close>, every other character stays.
\<close>

definition lower_char :: "char \<Rightarrow> char" where
  "lower_char c =
     (if 65 \<le> (of_char c :: nat) \<and> (of_char c :: nat) \<le> 90
      then char_of ((of_char c :: nat) + 32) else c)"

definition lower :: "string \<Rightarrow> string" where
  "lower s = map lower_char s"

subsection \<open>Detector\<close>

text \<open>
  The fields \<open>z\<close>, \<open>n\<close>, \<open>m\<close> and \<open>frac\<close> of the class are \<open>z_arr\<close>, \<open>n_arr\<close>,
  \<open>m_arr\<close> and \<open>frac_arr\<close> here. The one-element arrays \<open>np.array([x])\<close> are
  one-element lists.
\<close>

record detector =
  det_type :: string
  efficiency :: "real option"
  iso :: real
  z_arr :: "real list"
  n_arr :: "real list"
  m_arr :: "real list"
  frac_arr :: "real list"
  lattice_const :: "real list"
  cell_volume :: "real list"
  r0 :: "real list"
  er_min :: real
  er_max :: real
  bg :: real
  bg_un :: real
  fid_mass :: real
  volume :: real
  density :: real

definition Detector ::
  "det_file \<Rightarrow> string \<Rightarrow> real \<Rightarrow> real \<Rightarrow> real \<Rightarrow> real option \<Rightarrow> error + detector" where
  "Detector det_file dtype fiducial_mass vol dens eff =
     (case det_file (lower dtype) of
        None \<Rightarrow> Inl (Exception ''No such detector in det_params.json.'')
      | Some info \<Rightarrow>
          bind_err (item (k_iso info) ''iso'') (\<lambda>v_iso.
          bind_err (item (k_z info) ''z'') (\<lambda>v_z.
          bind_err (item (k_n info) ''n'') (\<lambda>v_n.
          bind_err (item (k_m info) ''m'') (\<lambda>v_m.
          bind_err (item (k_frac info) ''frac'') (\<lambda>v_frac.
          bind_err (item (k_lattice_const info) ''lattice_const'') (\<lambda>v_lattice_const.
          bind_err (item (k_cell_volume info) ''cell_volume'') (\<lambda>v_cell_volume.
          bind_err (item (k_atomic_radius info) ''atomic_radius'') (\<lambda>v_atomic_radius.
          bind_err (item (k_er_min info) ''er_min'') (\<lambda>v_er_min.
          bind_err (item (k_er_max info) ''er_max'') (\<lambda>v_er_max.
          bind_err (item (k_bg info) ''bg'') (\<lambda>v_bg.
          bind_err (item (k_bg_un info) ''bg_un'') (\<lambda>v_bg_un.
            Inr \<lparr> det_type = dtype, efficiency = eff, iso = v_iso,
                  z_arr = v_z, n_arr = v_n, m_arr = v_m, frac_arr = v_frac,
                  lattice_const = [v_lattice_const], cell_volume = [v_cell_volume],
                  r0 = [v_atomic_radius], er_min = v_er_min, er_max = v_er_max,
                  bg = v_bg, bg_un = v_bg_un, fid_mass = fiducial_mass,
                  volume = vol, density = dens \<rparr>)))))))))))))"

subsection \<open>Crystal\<close>

text \<open>
  The field \<open>a\<close> of the class is \<open>a_lat\<close> here. The reciprocal vectors are quotients
  by \<open>dot a1 (cross a2 a3)\<close>, so each is an optional vector.
\<close>

record crystal = detector +
  a_lat :: real
  alpha :: "vec list"
  a0 :: vec
  a1 :: vec
  a2 :: vec
  a3 :: vec
  basis :: "vec list"
  b1 :: "vec option"
  b2 :: "vec option"
  b3 :: "vec option"

definition Crystal ::
  "det_file \<Rightarrow> string \<Rightarrow> vec list \<Rightarrow> vec \<Rightarrow> vec \<Rightarrow> vec \<Rightarrow> real \<Rightarrow> real \<Rightarrow> real
     \<Rightarrow> error + crystal" where
  "Crystal det_file material primitives A1 A2 A3 vol dens fiducial_mass =
     bind_err (Detector det_file material fiducial_mass vol dens None) (\<lambda>d.
       (case lattice_const d of
          [] \<Rightarrow> Inl IndexError
        | a # _ \<Rightarrow>
            (let s_alpha = map (smult a) primitives;
                 s_a0 = smult a (0, 0, 0);
                 s_a1 = smult a A1;
                 s_a2 = smult a A2;
                 s_a3 = smult a A3
             in Inr (detector.extend d (crystal.fields a s_alpha s_a0 s_a1 s_a2 s_a3
                   [s_a0, s_a1, s_a2, s_a3]
                   (vdiv (smult (2 * pi) (cross s_a2 s_a3)) (dot s_a1 (cross s_a2 s_a3)))
                   (vdiv (smult (2 * pi) (cross s_a3 s_a1)) (dot s_a1 (cross s_a2 s_a3)))
                   (vdiv (smult (2 * pi) (cross s_a1 s_a2)) (dot s_a1 (cross s_a2 s_a3))))))))"

text \<open>The methods. Miller indices and lattice indices are integers.\<close>

definition r :: "crystal \<Rightarrow> int \<Rightarrow> int \<Rightarrow> int \<Rightarrow> vec" where
  "r c n1 n2 n3 =
     vadd (vadd (smult (of_int n1) (a1 c)) (smult (of_int n2) (a2 c))) (smult (of_int n3) (a3 c))"


definition miller :: "crystal \<Rightarrow> int \<Rightarrow> int \<Rightarrow> int \<Rightarrow> vec" where
  "miller c h k l = (of_int h, of_int k, of_int l)"

text \<open>
  \<open>sfunc\<close> reads \<open>alpha[1]\<close> first, which raises when there are fewer than two
  primitives. The terms of the sum divide each basis vector by \<open>a\<close>.
\<close>

definition sfunc_term :: "crystal \<Rightarrow> int \<Rightarrow> int \<Rightarrow> int \<Rightarrow> vec \<Rightarrow> complex option" where
  "sfunc_term c h k l avec =
     map_option (\<lambda>v. exp (- 2 * of_real pi * \<i> * of_real (dot (miller c h k l) v)))
       (vdiv avec (a_lat c))"


subsection \<open>get_crystal\<close>

definition cryslist :: "string list" where
  "cryslist = [''Ge'', ''Si'', ''NaI'', ''CsI'']"

text \<open>
  The result is \<open>Inr None\<close> where the function returns \<open>None\<close>, \<open>Inr (Some c)\<close> where
  it returns a crystal and \<open>Inl e\<close> where the constructor raises. The message printed
  for a name outside \<open>cryslist\<close> is not modelled.
\<close>

definition get_crystal :: "det_file \<Rightarrow> string \<Rightarrow> error + crystal option" where
  "get_crystal det_file name =
     (if name \<notin> set cryslist then Inr None
      else if name = ''Ge'' then
        bind_err (Crystal det_file name [(0.0, 0.0, 0.0), (0.25, 0.25, 0.25)]
                    (0.0, 0.5, 0.5) (0.5, 0.0, 0.5) (0.5, 0.5, 0.0) 1 1 1)
          (\<lambda>c. Inr (Some c))
      else if name = ''NaI'' then
        bind_err (Crystal det_file name [(0.0, 0.0, 0.0), (0.5, 0.5, 0.5)]
                    (0.0, 0.5, 0.5) (0.5, 0.0, 0.5) (0.5, 0.5, 0.0) 1 1 1)
          (\<lambda>c. Inr (Some c))
      else Inr None)"

subsection \<open>The formulas of the specification\<close>




text \<open>An entry of the reference data is complete when it has the twelve keys.\<close>

definition complete :: "det_info \<Rightarrow> bool" where
  "complete info \<longleftrightarrow>
     k_iso info \<noteq> None \<and> k_z info \<noteq> None \<and> k_n info \<noteq> None \<and> k_m info \<noteq> None \<and>
     k_frac info \<noteq> None \<and> k_lattice_const info \<noteq> None \<and> k_cell_volume info \<noteq> None \<and>
     k_atomic_radius info \<noteq> None \<and> k_er_min info \<noteq> None \<and> k_er_max info \<noteq> None \<and>
     k_bg info \<noteq> None \<and> k_bg_un info \<noteq> None"

subsection \<open>The method bodies and their execution\<close>

text \<open>
  Whether a call changes the object is a property of the statements of the method bodies,
  so the bodies of lines 75 to 92 are also kept as syntax. An expression is a literal or
  module-level name (\<open>2\<close>, \<open>pi\<close>, \<open>1j\<close>, \<open>HBARC\<close>), a parameter or comprehension
  variable, an attribute \<open>self.a\<close>, an operator or library function applied to arguments,
  a call \<open>self.m(...)\<close> of a method, or a list comprehension \<open>[e for x in it]\<close>. A
  statement is \<open>return e\<close> or the assignment \<open>self.a = e\<close>.
\<close>

datatype expr =
    Lit string
  | Var string
  | Attr string
  | Op string "expr list"
  | Method string "expr list"
  | Comp expr string expr

datatype stmt =
    Return expr
  | SetAttr string expr

text \<open>
  The object is a store from attribute names to values. Values are left open, and so is
  what the operators and library functions compute: an interpretation gives the value of
  each literal, the result of each operator on argument values (a value or an exception),
  the elements of an iterable and the list of given elements. Operators and library
  functions are applied to values and return a value: they assign no attribute of
  \<open>self\<close>.
\<close>

datatype 'x raised =
    AttributeError string
  | NameError string
  | TypeError string
  | Raised 'x

record ('v, 'x) interp =
  lit_val :: "string \<Rightarrow> 'v"
  apply_op :: "string \<Rightarrow> 'v list \<Rightarrow> 'x + 'v"
  iter_elems :: "'v \<Rightarrow> 'x + 'v list"
  make_list :: "'v list \<Rightarrow> 'v"
  none_val :: 'v

type_synonym 'v store = "string \<rightharpoonup> 'v"

type_synonym class_def = "string \<rightharpoonup> string list \<times> stmt list"

text \<open>
  Evaluation threads the store through every subexpression, left to right, and returns
  the result (an exception or a value) with the store it leaves. A call binds the
  parameters and executes the body; \<open>fuel\<close> bounds the depth of nested calls, and
  \<open>None\<close> is running out of it.
\<close>

function (sequential)
  eval :: "('v, 'x) interp \<Rightarrow> class_def \<Rightarrow> nat \<Rightarrow> 'v store \<Rightarrow> 'v store \<Rightarrow> expr
      \<Rightarrow> (('x raised + 'v) \<times> 'v store) option"
  and eval_args :: "('v, 'x) interp \<Rightarrow> class_def \<Rightarrow> nat \<Rightarrow> 'v store \<Rightarrow> 'v store \<Rightarrow> expr list
      \<Rightarrow> (('x raised + 'v list) \<times> 'v store) option"
  and eval_comp :: "('v, 'x) interp \<Rightarrow> class_def \<Rightarrow> nat \<Rightarrow> 'v store \<Rightarrow> 'v store \<Rightarrow> expr
      \<Rightarrow> string \<Rightarrow> 'v list \<Rightarrow> (('x raised + 'v list) \<times> 'v store) option"
  and exec :: "('v, 'x) interp \<Rightarrow> class_def \<Rightarrow> nat \<Rightarrow> 'v store \<Rightarrow> 'v store \<Rightarrow> stmt list
      \<Rightarrow> (('x raised + 'v) \<times> 'v store) option"
  and call :: "('v, 'x) interp \<Rightarrow> class_def \<Rightarrow> nat \<Rightarrow> 'v store \<Rightarrow> string \<Rightarrow> 'v list
      \<Rightarrow> (('x raised + 'v) \<times> 'v store) option"
where
  "eval I cls fuel s env (Lit c) = Some (Inr (lit_val I c), s)"
| "eval I cls fuel s env (Var x) =
     Some (case env x of None \<Rightarrow> Inl (NameError x) | Some v \<Rightarrow> Inr v, s)"
| "eval I cls fuel s env (Attr a) =
     Some (case s a of None \<Rightarrow> Inl (AttributeError a) | Some v \<Rightarrow> Inr v, s)"
| "eval I cls fuel s env (Op f es) =
     (case eval_args I cls fuel s env es of
        None \<Rightarrow> None
      | Some (Inl ex, s') \<Rightarrow> Some (Inl ex, s')
      | Some (Inr vs, s') \<Rightarrow>
          Some (case apply_op I f vs of Inl ex \<Rightarrow> Inl (Raised ex) | Inr v \<Rightarrow> Inr v, s'))"
| "eval I cls fuel s env (Method m es) =
     (case eval_args I cls fuel s env es of
        None \<Rightarrow> None
      | Some (Inl ex, s') \<Rightarrow> Some (Inl ex, s')
      | Some (Inr vs, s') \<Rightarrow> call I cls fuel s' m vs)"
| "eval I cls fuel s env (Comp e x it) =
     (case eval I cls fuel s env it of
        None \<Rightarrow> None
      | Some (Inl ex, s') \<Rightarrow> Some (Inl ex, s')
      | Some (Inr v, s') \<Rightarrow>
          (case iter_elems I v of
             Inl ex \<Rightarrow> Some (Inl (Raised ex), s')
           | Inr vs \<Rightarrow>
               (case eval_comp I cls fuel s' env e x vs of
                  None \<Rightarrow> None
                | Some (Inl ex, s'') \<Rightarrow> Some (Inl ex, s'')
                | Some (Inr ws, s'') \<Rightarrow> Some (Inr (make_list I ws), s''))))"
| "eval_args I cls fuel s env [] = Some (Inr [], s)"
| "eval_args I cls fuel s env (e # es) =
     (case eval I cls fuel s env e of
        None \<Rightarrow> None
      | Some (Inl ex, s') \<Rightarrow> Some (Inl ex, s')
      | Some (Inr v, s') \<Rightarrow>
          (case eval_args I cls fuel s' env es of
             None \<Rightarrow> None
           | Some (Inl ex, s'') \<Rightarrow> Some (Inl ex, s'')
           | Some (Inr vs, s'') \<Rightarrow> Some (Inr (v # vs), s'')))"
| "eval_comp I cls fuel s env e x [] = Some (Inr [], s)"
| "eval_comp I cls fuel s env e x (v # vs) =
     (case eval I cls fuel s (env(x \<mapsto> v)) e of
        None \<Rightarrow> None
      | Some (Inl ex, s') \<Rightarrow> Some (Inl ex, s')
      | Some (Inr w, s') \<Rightarrow>
          (case eval_comp I cls fuel s' env e x vs of
             None \<Rightarrow> None
           | Some (Inl ex, s'') \<Rightarrow> Some (Inl ex, s'')
           | Some (Inr ws, s'') \<Rightarrow> Some (Inr (w # ws), s'')))"
| "exec I cls fuel s env [] = Some (Inr (none_val I), s)"
| "exec I cls fuel s env (Return e # rest) = eval I cls fuel s env e"
| "exec I cls fuel s env (SetAttr a e # rest) =
     (case eval I cls fuel s env e of
        None \<Rightarrow> None
      | Some (Inl ex, s') \<Rightarrow> Some (Inl ex, s')
      | Some (Inr v, s') \<Rightarrow> exec I cls fuel (s'(a \<mapsto> v)) env rest)"
| "call I cls 0 s m vs = None"
| "call I cls (Suc fuel) s m vs =
     (case cls m of
        None \<Rightarrow> Some (Inl (AttributeError m), s)
      | Some (params, body) \<Rightarrow>
          if length params \<noteq> length vs then Some (Inl (TypeError m), s)
          else exec I cls fuel s (map_of (zip params vs)) body)"
  by pat_completeness auto
termination
  by (relation "inv_image (less_than <*lex*> less_than <*lex*> less_than)
        (case_sum
          (case_sum (\<lambda>(I, cls, fuel, s, env, e). (fuel, size e, 0))
                    (\<lambda>(I, cls, fuel, s, env, es). (fuel, size_list size es, 0)))
          (case_sum (\<lambda>(I, cls, fuel, s, env, e, x, vs). (fuel, size e, Suc (length vs)))
             (case_sum (\<lambda>(I, cls, fuel, s, env, body). (fuel,
                          size_list (\<lambda>st. case st of Return e \<Rightarrow> Suc (size e)
                                          | SetAttr a e \<Rightarrow> Suc (size e)) body, 0))
                       (\<lambda>(I, cls, fuel, s, m, vs). (fuel, 0, 0)))))")
    auto

text \<open>
  The six methods of \<open>Crystal\<close>, as lines 75 to 92 write them. \<open>-1j * x\<close> is
  \<open>(-1j) * x\<close> and \<open>-2*pi*1j*x\<close> is \<open>(((-2)*pi)*1j)*x\<close>; \<open>alpha[1]\<close> is the operator
  \<open>getitem\<close>; the list display \<open>[h, k, l]\<close> is the operator \<open>list\<close>.
\<close>

definition Crystal_methods :: class_def where
  "Crystal_methods =
    [''r'' \<mapsto> ([''n1'', ''n2'', ''n3''],
       [Return (Op ''+'' [Op ''+'' [Op ''*'' [Var ''n1'', Attr ''a1''],
                                     Op ''*'' [Var ''n2'', Attr ''a2'']],
                          Op ''*'' [Var ''n3'', Attr ''a3'']])]),
     ''G'' \<mapsto> ([''h'', ''k'', ''l''],
       [Return (Op ''+'' [Op ''+'' [Op ''*'' [Var ''h'', Attr ''b1''],
                                     Op ''*'' [Var ''k'', Attr ''b2'']],
                          Op ''*'' [Var ''l'', Attr ''b3'']])]),
     ''wavelength'' \<mapsto> ([''h'', ''k'', ''l''],
       [Return (Op ''/'' [Op ''*'' [Lit ''2'', Lit ''pi''],
                          Op ''sqrt'' [Op ''dot''
                            [Method ''G'' [Var ''h'', Var ''k'', Var ''l''],
                             Method ''G'' [Var ''h'', Var ''k'', Var ''l'']]]])]),
     ''energy'' \<mapsto> ([''h'', ''k'', ''l''],
       [Return (Op ''*'' [Lit ''HBARC'',
                          Op ''sqrt'' [Op ''dot''
                            [Method ''G'' [Var ''h'', Var ''k'', Var ''l''],
                             Method ''G'' [Var ''h'', Var ''k'', Var ''l'']]]])]),
     ''miller'' \<mapsto> ([''h'', ''k'', ''l''],
       [Return (Op ''np.array'' [Op ''list'' [Var ''h'', Var ''k'', Var ''l'']])]),
     ''sfunc'' \<mapsto> ([''h'', ''k'', ''l''],
       [Return (Op ''abs'' [Op ''*''
          [Op ''+'' [Lit ''1'',
             Op ''exp'' [Op ''*'' [Op ''neg'' [Lit ''1j''],
                Op ''dot'' [Op ''getitem'' [Attr ''alpha'', Lit ''1''],
                            Method ''G'' [Var ''h'', Var ''k'', Var ''l'']]]]],
           Op ''sum'' [Comp
             (Op ''exp'' [Op ''*'' [Op ''*'' [Op ''*'' [Op ''neg'' [Lit ''2''], Lit ''pi''],
                                              Lit ''1j''],
                Op ''dot'' [Method ''miller'' [Var ''h'', Var ''k'', Var ''l''],
                            Op ''/'' [Var ''avec'', Attr ''a'']]]])
             ''avec'' (Attr ''basis'')]]])])]"

definition query_methods :: "string list" where
  "query_methods = [''r'', ''G'', ''wavelength'', ''energy'', ''miller'', ''sfunc'']"

text \<open>A statement assigns when it is an attribute assignment; a class is read-only when
  no statement of any of its methods assigns.\<close>

fun assigns :: "stmt \<Rightarrow> bool" where
  "assigns (Return e) = False"
| "assigns (SetAttr a e) = True"

definition read_only :: "class_def \<Rightarrow> bool" where
  "read_only cls \<longleftrightarrow>
     (\<forall>m params body. cls m = Some (params, body) \<longrightarrow> \<not> list_ex assigns body)"

text \<open>
  \<open>fuel_ok cls n e\<close>: fuel \<open>n\<close> is enough for the calls nested in \<open>e\<close>; \<open>call_ok\<close>
  is the same for a call of a method.
\<close>

fun stmt_expr :: "stmt \<Rightarrow> expr" where
  "stmt_expr (Return e) = e"
| "stmt_expr (SetAttr a e) = e"

fun fuel_ok :: "class_def \<Rightarrow> nat \<Rightarrow> expr \<Rightarrow> bool" where
  "fuel_ok cls n (Lit c) = True"
| "fuel_ok cls n (Var x) = True"
| "fuel_ok cls n (Attr a) = True"
| "fuel_ok cls n (Op f es) = list_all (fuel_ok cls n) es"
| "fuel_ok cls n (Method m es) =
     (list_all (fuel_ok cls n) es \<and>
      (case n of
         0 \<Rightarrow> False
       | Suc k \<Rightarrow>
           (case cls m of
              None \<Rightarrow> True
            | Some (params, body) \<Rightarrow> list_all (\<lambda>st. fuel_ok cls k (stmt_expr st)) body)))"
| "fuel_ok cls n (Comp e x it) = (fuel_ok cls n it \<and> fuel_ok cls n e)"

definition call_ok :: "class_def \<Rightarrow> nat \<Rightarrow> string \<Rightarrow> bool" where
  "call_ok cls n m =
     (case n of
        0 \<Rightarrow> False
      | Suc k \<Rightarrow>
          (case cls m of
             None \<Rightarrow> True
           | Some (params, body) \<Rightarrow> list_all (\<lambda>st. fuel_ok cls k (stmt_expr st)) body))"

text \<open>
  An interpretation and a store for concrete runs: values are integers, every literal is
  \<open>1\<close>, every operator adds its arguments, an iterable has its value twice as elements.
\<close>

definition adding_interp :: "(int, unit) interp" where
  "adding_interp = \<lparr> lit_val = (\<lambda>c. 1), apply_op = (\<lambda>f vs. Inr (sum_list vs)),
      iter_elems = (\<lambda>v. Inr [v, v]), make_list = sum_list, none_val = 0 \<rparr>"

definition lattice_store :: "int store" where
  "lattice_store = [''a1'' \<mapsto> 1, ''a2'' \<mapsto> 2, ''a3'' \<mapsto> 3]"

subsection \<open>Concrete instances\<close>

text \<open>
  A reference table with entries for germanium (five isotopes) and sodium iodide, a table
  whose argon entry has no lattice data, and the germanium crystal of \<open>get_crystal\<close>
  built from the first table.
\<close>

definition ge_info :: det_info where
  "ge_info = \<lparr> k_iso = Some 5, k_z = Some [32, 32, 32, 32, 32],
      k_n = Some [38, 40, 41, 42, 44],
      k_m = Some [65.13, 66.99, 67.92, 68.85, 70.72],
      k_frac = Some [0.2057, 0.2745, 0.0775, 0.3650, 0.0773],
      k_lattice_const = Some 5.658, k_cell_volume = Some 181.1, k_atomic_radius = Some 1.25,
      k_er_min = Some 0, k_er_max = Some 1, k_bg = Some 0, k_bg_un = Some 0 \<rparr>"

definition nai_info :: det_info where
  "nai_info = \<lparr> k_iso = Some 2, k_z = Some [11, 53], k_n = Some [12, 74],
      k_m = Some [21.41, 118.21], k_frac = Some [0.5, 0.5],
      k_lattice_const = Some 6.47, k_cell_volume = Some 270.8, k_atomic_radius = Some 1.4,
      k_er_min = Some 0, k_er_max = Some 1, k_bg = Some 0, k_bg_un = Some 0 \<rparr>"

definition ar_info :: det_info where
  "ar_info = \<lparr> k_iso = Some 1, k_z = Some [18], k_n = Some [22],
      k_m = Some [37.21], k_frac = Some [1],
      k_lattice_const = None, k_cell_volume = None, k_atomic_radius = None,
      k_er_min = Some 0, k_er_max = Some 1, k_bg = Some 0, k_bg_un = Some 0 \<rparr>"

definition sample_params :: det_file where
  "sample_params = [''ge'' \<mapsto> ge_info, ''nai'' \<mapsto> nai_info]"

definition gas_params :: det_file where
  "gas_params = [''ar'' \<mapsto> ar_info]"

definition ge_crystal :: crystal where
  "ge_crystal = projr (Crystal sample_params ''Ge'' [(0, 0, 0), (0.25, 0.25, 0.25)]
       (0, 0.5, 0.5) (0.5, 0, 0.5) (0.5, 0.5, 0) 1 1 1)"

section \<open>Properties\<close>

subsection \<open>Errors, dict lookups and the constructors\<close>

lemma bind_err_Inr: "bind_err m f = Inr y \<longleftrightarrow> (\<exists>x. m = Inr x \<and> f x = Inr y)"
  by (cases m) auto

lemma item_Inr: "item v k = Inr x \<longleftrightarrow> v = Some x"
  by (cases v) (auto simp: item_def)

lemma Detector_Inr:
  assumes "Detector df t fm v d e = Inr x"
  shows "\<exists>info u1 u2 u3. df (lower t) = Some info \<and>
     k_iso info = Some (iso x) \<and> k_z info = Some (z_arr x) \<and> k_n info = Some (n_arr x) \<and>
     k_m info = Some (m_arr x) \<and> k_frac info = Some (frac_arr x) \<and>
     k_lattice_const info = Some u1 \<and> lattice_const x = [u1] \<and>
     k_cell_volume info = Some u2 \<and> cell_volume x = [u2] \<and>
     k_atomic_radius info = Some u3 \<and> r0 x = [u3] \<and>
     k_er_min info = Some (er_min x) \<and> k_er_max info = Some (er_max x) \<and>
     k_bg info = Some (bg x) \<and> k_bg_un info = Some (bg_un x) \<and>
     det_type x = t \<and> efficiency x = e \<and> fid_mass x = fm \<and> volume x = v \<and> density x = d"
  using assms
  by (auto simp: Detector_def bind_err_Inr item_Inr split: option.splits)

lemma Detector_complete:
  assumes "df (lower t) = Some info" "complete info"
  shows "\<exists>x. Detector df t fm v d e = Inr x"
  using assms by (auto simp: Detector_def complete_def item_def)

lemma Detector_Inl:
  "(\<exists>er. Detector df t fm v d e = Inl er) \<longleftrightarrow>
     (df (lower t) = None \<or> (\<exists>info. df (lower t) = Some info \<and> \<not> complete info))"
  by (auto simp: Detector_def complete_def item_def split: option.splits)

lemma Crystal_Inr:
  assumes "Crystal df m p A1 A2 A3 v d f = Inr c"
  shows "\<exists>x a. Detector df m f v d None = Inr x \<and> lattice_const x = [a] \<and>
     c = detector.extend x (crystal.fields a (map (smult a) p) (smult a (0,0,0)) (smult a A1)
           (smult a A2) (smult a A3) [smult a (0,0,0), smult a A1, smult a A2, smult a A3]
           (vdiv (smult (2 * pi) (cross (smult a A2) (smult a A3))) (dot (smult a A1) (cross (smult a A2) (smult a A3))))
           (vdiv (smult (2 * pi) (cross (smult a A3) (smult a A1))) (dot (smult a A1) (cross (smult a A2) (smult a A3))))
           (vdiv (smult (2 * pi) (cross (smult a A1) (smult a A2))) (dot (smult a A1) (cross (smult a A2) (smult a A3)))))"
proof -
  from assms obtain x where x: "Detector df m f v d None = Inr x"
    by (cases "Detector df m f v d None") (auto simp: Crystal_def)
  from Detector_Inr[OF x] obtain a where a: "lattice_const x = [a]"
    by auto
  from assms x a show ?thesis
    by (auto simp: Crystal_def Let_def)
qed

lemma Crystal_fields:
  assumes "Crystal df m p A1 A2 A3 v d f = Inr c"
  shows "lattice_const c = [a_lat c]" "alpha c = map (smult (a_lat c)) p"
    "a0 c = (0, 0, 0)" "a1 c = smult (a_lat c) A1" "a2 c = smult (a_lat c) A2"
    "a3 c = smult (a_lat c) A3" "basis c = [a0 c, a1 c, a2 c, a3 c]"
    "b1 c = vdiv (smult (2 * pi) (cross (a2 c) (a3 c))) (dot (a1 c) (cross (a2 c) (a3 c)))"
    "b2 c = vdiv (smult (2 * pi) (cross (a3 c) (a1 c))) (dot (a1 c) (cross (a2 c) (a3 c)))"
    "b3 c = vdiv (smult (2 * pi) (cross (a1 c) (a2 c))) (dot (a1 c) (cross (a2 c) (a3 c)))"
  using Crystal_Inr[OF assms]
  by (auto simp: detector.defs crystal.defs)

lemma lower_Ge: "lower ''Ge'' = ''ge''" by code_simp
lemma lower_NaI: "lower ''NaI'' = ''nai''" by code_simp

lemma complete_ge_info: "complete ge_info" by (simp add: complete_def ge_info_def)
lemma complete_nai_info: "complete nai_info" by (simp add: complete_def nai_info_def)

lemma Crystal_complete:
  assumes "df (lower t) = Some info" "complete info"
  shows "\<exists>c. Crystal df t p A1 A2 A3 v d f = Inr c \<and> k_lattice_const info = Some (a_lat c)"
proof -
  from Detector_complete[of df t info f v d None] assms
  obtain x where x: "Detector df t f v d None = Inr x"
    by blast
  from Detector_Inr[OF x] assms(1) obtain u where u: "k_lattice_const info = Some u" "lattice_const x = [u]"
    by auto
  show ?thesis using x u
    by (simp add: Crystal_def Let_def detector.defs crystal.defs)
qed

lemma ge_crystal_built:
  "Crystal sample_params ''Ge'' [(0, 0, 0), (0.25, 0.25, 0.25)]
       (0, 0.5, 0.5) (0.5, 0, 0.5) (0.5, 0.5, 0) 1 1 1 = Inr ge_crystal"
proof -
  have "sample_params (lower ''Ge'') = Some ge_info"
    by (simp add: lower_Ge sample_params_def)
  from Crystal_complete[of sample_params "''Ge''" ge_info] this complete_ge_info
  show ?thesis unfolding ge_crystal_def by (metis sum.sel(2))
qed








subsection \<open>Vector algebra\<close>









subsection \<open>The structure factor\<close>









subsection \<open>Construction and the reference data\<close>

lemma Crystal_Inl:
  "(\<exists>er. Crystal df t p A1 A2 A3 v d f = Inl er) \<longleftrightarrow> (\<exists>er. Detector df t f v d None = Inl er)"
proof (cases "Detector df t f v d None")
  case (Inl er)
  then show ?thesis by (simp add: Crystal_def)
next
  case (Inr x)
  from Detector_Inr[OF this] obtain u where "lattice_const x = [u]" by blast
  with Inr show ?thesis by (simp add: Crystal_def Let_def)
qed

lemma Detector_absent:
  "df (lower t) = None \<Longrightarrow>
     Detector df t fm v d e = Inl (Exception ''No such detector in det_params.json.'')"
  by (simp add: Detector_def)

lemma Detector_stores:
  assumes "df (lower t) = Some info" "complete info"
  shows "\<exists>x. Detector df t fm v d e = Inr x \<and>
     k_iso info = Some (iso x) \<and> k_z info = Some (z_arr x) \<and> k_n info = Some (n_arr x) \<and>
     k_m info = Some (m_arr x) \<and> k_frac info = Some (frac_arr x) \<and>
     map_option (\<lambda>u. [u]) (k_lattice_const info) = Some (lattice_const x) \<and>
     map_option (\<lambda>u. [u]) (k_cell_volume info) = Some (cell_volume x) \<and>
     map_option (\<lambda>u. [u]) (k_atomic_radius info) = Some (r0 x) \<and>
     k_er_min info = Some (er_min x) \<and> k_er_max info = Some (er_max x) \<and>
     k_bg info = Some (bg x) \<and> k_bg_un info = Some (bg_un x)"
proof -
  from Detector_complete[of df t info fm v d e] assms
  obtain x where x: "Detector df t fm v d e = Inr x" by blast
  from Detector_Inr[OF x] assms(1) show ?thesis
    unfolding x by auto
qed

lemma lower_Ar: "lower ''Ar'' = ''ar''" by code_simp
lemma lower_Xe: "lower ''Xe'' = ''xe''" by code_simp

text \<open>
  Claim C4, as amended. Constructing a detector, and hence a crystal, with material name
  \<open>d\<close> raises an exception if and only if \<open>lower d\<close> is absent from the reference data or
  its entry lacks one of the twelve keys. When \<open>lower d\<close> is absent the exception is the
  one the constructor raises itself; when it is present with all twelve keys the
  constructor returns, having stored the constants of the entry.
\<close>

theorem Detector_raises:
  "((\<exists>er. Detector df d fm v dn ef = Inl er) \<longleftrightarrow>
      (df (lower d) = None \<or> (\<exists>info. df (lower d) = Some info \<and> \<not> complete info))) \<and>
   ((\<exists>er. Crystal df d p A1 A2 A3 v dn fm = Inl er) \<longleftrightarrow>
      (df (lower d) = None \<or> (\<exists>info. df (lower d) = Some info \<and> \<not> complete info))) \<and>
   (df (lower d) = None \<longrightarrow>
      Detector df d fm v dn ef = Inl (Exception ''No such detector in det_params.json.'')) \<and>
   (\<forall>info. df (lower d) = Some info \<and> complete info \<longrightarrow>
      (\<exists>x. Detector df d fm v dn ef = Inr x \<and>
         k_iso info = Some (iso x) \<and> k_z info = Some (z_arr x) \<and>
         k_n info = Some (n_arr x) \<and> k_m info = Some (m_arr x) \<and>
         k_frac info = Some (frac_arr x) \<and>
         map_option (\<lambda>u. [u]) (k_lattice_const info) = Some (lattice_const x) \<and>
         map_option (\<lambda>u. [u]) (k_cell_volume info) = Some (cell_volume x) \<and>
         map_option (\<lambda>u. [u]) (k_atomic_radius info) = Some (r0 x) \<and>
         k_er_min info = Some (er_min x) \<and> k_er_max info = Some (er_max x) \<and>
         k_bg info = Some (bg x) \<and> k_bg_un info = Some (bg_un x)))"
  using Detector_Inl[of df d fm v dn ef] Detector_Inl[of df d fm v dn None]
    Crystal_Inl[of df d p A1 A2 A3 v dn fm] Detector_absent[of df d fm v dn ef]
    Detector_stores[of df d _ fm v dn ef]
  by blast

theorem Detector_raises_witness:
  "sample_params (lower ''Ge'') = Some ge_info \<and> complete ge_info \<and>
   (\<exists>x. Detector sample_params ''Ge'' 1 1 1 None = Inr x \<and>
        k_iso ge_info = Some (iso x) \<and> k_z ge_info = Some (z_arr x) \<and>
        map_option (\<lambda>u. [u]) (k_lattice_const ge_info) = Some (lattice_const x)) \<and>
   sample_params (lower ''Xe'') = None \<and>
   Detector sample_params ''Xe'' 1 1 1 None =
     Inl (Exception ''No such detector in det_params.json.'')"
proof -
  have ge: "sample_params (lower ''Ge'') = Some ge_info"
    by (simp add: lower_Ge sample_params_def)
  have xe: "sample_params (lower ''Xe'') = None"
    by (simp add: lower_Xe sample_params_def)
  from Detector_raises[of sample_params "''Ge''" 1 1 1 None "[]" "(0, 0, 0)" "(0, 0, 0)" "(0, 0, 0)"]
    Detector_raises[of sample_params "''Xe''" 1 1 1 None "[]" "(0, 0, 0)" "(0, 0, 0)" "(0, 0, 0)"]
    ge xe complete_ge_info
  show ?thesis by blast
qed

theorem Detector_raises_counterexample:
  "gas_params (lower ''Ar'') = Some ar_info \<and>
   Detector gas_params ''Ar'' 1 1 1 None = Inl (KeyError ''lattice_const'')"
  by (simp add: lower_Ar gas_params_def Detector_def ar_info_def item_def)

subsection \<open>get_crystal\<close>

lemma get_crystal_None:
  "name \<noteq> ''Ge'' \<Longrightarrow> name \<noteq> ''NaI'' \<Longrightarrow> get_crystal df name = Inr None"
  by (simp add: get_crystal_def)

lemma get_crystal_Some:
  assumes "get_crystal df name = Inr (Some c)"
  shows "(name = ''Ge'' \<and> Crystal df name [(0, 0, 0), (0.25, 0.25, 0.25)]
              (0, 0.5, 0.5) (0.5, 0, 0.5) (0.5, 0.5, 0) 1 1 1 = Inr c) \<or>
         (name = ''NaI'' \<and> Crystal df name [(0, 0, 0), (0.5, 0.5, 0.5)]
              (0, 0.5, 0.5) (0.5, 0, 0.5) (0.5, 0.5, 0) 1 1 1 = Inr c)"
  using assms
  by (auto simp: get_crystal_def bind_err_Inr split: if_splits)

lemma get_crystal_Ge:
  assumes "df ''ge'' = Some info" "complete info"
  shows "\<exists>c. get_crystal df ''Ge'' = Inr (Some c)"
proof -
  from Crystal_complete[of df "''Ge''" info] assms
  obtain c where "Crystal df ''Ge'' [(0, 0, 0), (0.25, 0.25, 0.25)]
              (0, 0.5, 0.5) (0.5, 0, 0.5) (0.5, 0.5, 0) 1 1 1 = Inr c"
    unfolding lower_Ge by blast
  then show ?thesis by (simp add: get_crystal_def cryslist_def)
qed

lemma get_crystal_NaI:
  assumes "df ''nai'' = Some info" "complete info"
  shows "\<exists>c. get_crystal df ''NaI'' = Inr (Some c)"
proof -
  from Crystal_complete[of df "''NaI''" info] assms
  obtain c where "Crystal df ''NaI'' [(0, 0, 0), (0.5, 0.5, 0.5)]
              (0, 0.5, 0.5) (0.5, 0, 0.5) (0.5, 0.5, 0) 1 1 1 = Inr c"
    unfolding lower_NaI by blast
  then show ?thesis by (simp add: get_crystal_def cryslist_def)
qed

text \<open>
  Claim C5. For every string \<open>name\<close>, \<open>get_crystal name\<close> returns a crystal only when
  \<open>name\<close> is \<open>Ge\<close> or \<open>NaI\<close>; for \<open>Si\<close>, for \<open>CsI\<close> and for every other name it returns
  \<open>None\<close> without raising. With reference data that has complete entries for \<open>ge\<close> and
  \<open>nai\<close>, it returns a crystal for \<open>Ge\<close> and for \<open>NaI\<close>.
\<close>

theorem get_crystal_dispatch:
  "((\<exists>c. get_crystal df name = Inr (Some c)) \<longrightarrow> name = ''Ge'' \<or> name = ''NaI'') \<and>
   (name \<noteq> ''Ge'' \<and> name \<noteq> ''NaI'' \<longrightarrow> get_crystal df name = Inr None) \<and>
   get_crystal df ''Si'' = Inr None \<and> get_crystal df ''CsI'' = Inr None \<and>
   (df ''ge'' = Some ige \<and> complete ige \<and> df ''nai'' = Some inai \<and> complete inai \<longrightarrow>
      ((\<exists>c. get_crystal df name = Inr (Some c)) \<longleftrightarrow> name = ''Ge'' \<or> name = ''NaI''))"
proof -
  have 1: "name = ''Ge'' \<or> name = ''NaI''" if "\<exists>c. get_crystal df name = Inr (Some c)"
    using that get_crystal_Some[of df name] by blast
  have 2: "get_crystal df ''Si'' = Inr None" "get_crystal df ''CsI'' = Inr None"
    by (simp_all add: get_crystal_None)
  have 3: "\<exists>c. get_crystal df name = Inr (Some c)"
    if "df ''ge'' = Some ige" "complete ige" "df ''nai'' = Some inai" "complete inai"
      "name = ''Ge'' \<or> name = ''NaI''"
    using that get_crystal_Ge[of df ige] get_crystal_NaI[of df inai] by blast
  from 1 2 3 get_crystal_None[of name df] show ?thesis by blast
qed

theorem get_crystal_dispatch_witness:
  "sample_params ''ge'' = Some ge_info \<and> complete ge_info \<and>
   sample_params ''nai'' = Some nai_info \<and> complete nai_info \<and>
   (\<exists>c. get_crystal sample_params ''Ge'' = Inr (Some c)) \<and>
   ''Zn'' \<noteq> ''Ge'' \<and> ''Zn'' \<noteq> ''NaI'' \<and>
   get_crystal sample_params ''Zn'' = Inr None"
proof -
  have t: "sample_params ''ge'' = Some ge_info" "sample_params ''nai'' = Some nai_info"
    by (simp_all add: sample_params_def)
  have z: "''Zn'' \<noteq> ''Ge''" "''Zn'' \<noteq> ''NaI''" by simp_all
  from get_crystal_dispatch[of sample_params "''Ge''" ge_info nai_info]
    get_crystal_dispatch[of sample_params "''Zn''" ge_info nai_info]
    t z complete_ge_info complete_nai_info
  show ?thesis by blast
qed

subsection \<open>Shapes of the stored arrays\<close>

lemma Crystal_detector_fields:
  assumes "Crystal df t p A1 A2 A3 v d f = Inr c"
  shows "\<exists>x. Detector df t f v d None = Inr x \<and>
     z_arr c = z_arr x \<and> n_arr c = n_arr x \<and> m_arr c = m_arr x \<and> frac_arr c = frac_arr x \<and>
     lattice_const c = lattice_const x \<and> cell_volume c = cell_volume x \<and> r0 c = r0 x"
  using Crystal_Inr[OF assms] by (auto simp: detector.defs crystal.defs)

lemma Crystal_inherited_arrays:
  assumes "Crystal df t p A1 A2 A3 v d f = Inr c"
  shows "length (lattice_const c) = 1 \<and> length (cell_volume c) = 1 \<and> length (r0 c) = 1 \<and>
     (\<exists>info. df (lower t) = Some info \<and> k_z info = Some (z_arr c) \<and>
        k_n info = Some (n_arr c) \<and> k_m info = Some (m_arr c) \<and>
        k_frac info = Some (frac_arr c))"
proof -
  from Crystal_detector_fields[OF assms] obtain x
    where x: "Detector df t f v d None = Inr x"
      and f: "z_arr c = z_arr x" "n_arr c = n_arr x" "m_arr c = m_arr x"
        "frac_arr c = frac_arr x" "lattice_const c = lattice_const x"
        "cell_volume c = cell_volume x" "r0 c = r0 x"
    by blast
  from Detector_Inr[OF x] show ?thesis unfolding f by auto
qed

text \<open>
  Claim C8, as amended. For every crystal returned by \<open>get_crystal\<close>, the lattice arrays
  have at most 4 rows of 3 components: \<open>basis\<close> is the four 3-vectors \<open>a0\<close> to \<open>a3\<close>,
  \<open>alpha\<close> has two 3-vectors, and \<open>sfunc\<close> sums four terms (\<open>a0\<close> to \<open>a3\<close>, \<open>b1\<close> to
  \<open>b3\<close> and the values of \<open>r\<close>, \<open>G\<close> and \<open>miller\<close> are 3-vectors by their type). The
  inherited arrays \<open>lattice_const\<close>, \<open>cell_volume\<close> and \<open>r0\<close> have one element; the
  inherited isotope arrays \<open>z\<close>, \<open>n\<close>, \<open>m\<close> and \<open>frac\<close> are the arrays of the reference
  data, of whatever length those have.
\<close>

theorem stored_array_shapes:
  assumes "get_crystal df name = Inr (Some c)"
  shows "basis c = [a0 c, a1 c, a2 c, a3 c] \<and> length (basis c) = 4 \<and>
     length (alpha c) = 2 \<and>
     length (map (sfunc_term c h k l) (basis c)) = 4 \<and>
     length (lattice_const c) = 1 \<and> length (cell_volume c) = 1 \<and> length (r0 c) = 1 \<and>
     (\<exists>info. df (lower name) = Some info \<and> k_z info = Some (z_arr c) \<and>
        k_n info = Some (n_arr c) \<and> k_m info = Some (m_arr c) \<and>
        k_frac info = Some (frac_arr c))"
  using get_crystal_Some[OF assms]
proof
  assume a: "name = ''Ge'' \<and> Crystal df name [(0, 0, 0), (0.25, 0.25, 0.25)]
              (0, 0.5, 0.5) (0.5, 0, 0.5) (0.5, 0.5, 0) 1 1 1 = Inr c"
  then have built: "Crystal df name [(0, 0, 0), (0.25, 0.25, 0.25)]
              (0, 0.5, 0.5) (0.5, 0, 0.5) (0.5, 0.5, 0) 1 1 1 = Inr c" by blast
  from Crystal_inherited_arrays[OF built] show ?thesis
    by (simp add: Crystal_fields(2,7)[OF built])
next
  assume a: "name = ''NaI'' \<and> Crystal df name [(0, 0, 0), (0.5, 0.5, 0.5)]
              (0, 0.5, 0.5) (0.5, 0, 0.5) (0.5, 0.5, 0) 1 1 1 = Inr c"
  then have built: "Crystal df name [(0, 0, 0), (0.5, 0.5, 0.5)]
              (0, 0.5, 0.5) (0.5, 0, 0.5) (0.5, 0.5, 0) 1 1 1 = Inr c" by blast
  from Crystal_inherited_arrays[OF built] show ?thesis
    by (simp add: Crystal_fields(2,7)[OF built])
qed

lemma get_crystal_sample_Ge: "get_crystal sample_params ''Ge'' = Inr (Some ge_crystal)"
  using ge_crystal_built by (simp add: get_crystal_def cryslist_def)

theorem stored_array_shapes_witness:
  "get_crystal sample_params ''Ge'' = Inr (Some ge_crystal) \<and>
   length (basis ge_crystal) = 4 \<and> length (alpha ge_crystal) = 2 \<and>
   length (lattice_const ge_crystal) = 1"
  using stored_array_shapes[OF get_crystal_sample_Ge] get_crystal_sample_Ge
  by blast

theorem stored_array_shapes_counterexample:
  "get_crystal sample_params ''Ge'' = Inr (Some ge_crystal) \<and>
   length (z_arr ge_crystal) = 5 \<and> length (frac_arr ge_crystal) = 5"
proof -
  from Crystal_inherited_arrays[OF ge_crystal_built]
  have "k_z ge_info = Some (z_arr ge_crystal)" "k_frac ge_info = Some (frac_arr ge_crystal)"
    by (auto simp: lower_Ge sample_params_def)
  then have "z_arr ge_crystal = [32, 32, 32, 32, 32]"
    "frac_arr ge_crystal = [0.2057, 0.2745, 0.0775, 0.3650, 0.0773]"
    by (simp_all add: ge_info_def)
  with get_crystal_sample_Ge show ?thesis by simp
qed

subsection \<open>The methods are queries\<close>

text \<open>
  In a read-only class no evaluation, execution or call changes the store. The proof
  follows the recursion of the evaluator; the only store update of the semantics is the
  one of an attribute assignment.
\<close>

lemma frame:
  shows "read_only cls \<Longrightarrow> eval I cls fuel s env e = Some (res, s') \<Longrightarrow> s' = s"
    and "read_only cls \<Longrightarrow> eval_args I cls fuel s env es = Some (ress, s') \<Longrightarrow> s' = s"
    and "read_only cls \<Longrightarrow> eval_comp I cls fuel s env e x vs = Some (ress, s') \<Longrightarrow> s' = s"
    and "read_only cls \<Longrightarrow> \<not> list_ex assigns body \<Longrightarrow>
           exec I cls fuel s env body = Some (res, s') \<Longrightarrow> s' = s"
    and "read_only cls \<Longrightarrow> call I cls fuel s m ws = Some (res, s') \<Longrightarrow> s' = s"
proof (induction I cls fuel s env e and I cls fuel s env es and I cls fuel s env e x vs
    and I cls fuel s env body and I cls fuel s m ws
    arbitrary: res s' and ress s' and ress s' and res s' and res s'
    rule: eval_eval_args_eval_comp_exec_call.induct)
  case (4 I cls fuel s env f es)
  then show ?case by (auto split: option.splits sum.splits)
next
  case (5 I cls fuel s env m es)
  then show ?case by (fastforce split: option.splits sum.splits)
next
  case (6 I cls fuel s env e x it)
  then show ?case by (fastforce split: option.splits sum.splits)
next
  case (8 I cls fuel s env e es)
  then show ?case by (fastforce split: option.splits sum.splits)
next
  case (10 I cls fuel s env e x v vs)
  then show ?case by (fastforce split: option.splits sum.splits)
next
  case (15 I cls fuel s m ws)
  show ?case
  proof (cases "cls m")
    case None
    with 15(3) show ?thesis by simp
  next
    case (Some pb)
    obtain params body where pb: "pb = (params, body)" by (cases pb)
    from 15(2) Some pb have na: "\<not> list_ex assigns body"
      unfolding read_only_def by blast
    show ?thesis
    proof (cases "length params = length ws")
      case True
      with 15(3) Some pb have "exec I cls fuel s (map_of (zip params ws)) body = Some (res, s')"
        by simp
      from 15(1)[OF Some[unfolded pb] refl _ 15(2) na this] True show ?thesis by simp
    next
      case False
      with 15(3) Some pb show ?thesis by simp
    qed
  qed
qed simp_all

text \<open>A method whose body assigns an attribute does change the store.\<close>

lemma call_setter_writes:
  "call I [''set'' \<mapsto> ([], [SetAttr ''a'' (Lit ''0'')])] (Suc 0) s ''set'' [] =
     Some (Inr (none_val I), s(''a'' \<mapsto> lit_val I ''0''))"
  by simp

text \<open>With enough fuel every evaluation returns.\<close>

lemma enough_fuel:
  shows "fuel_ok cls fuel e \<Longrightarrow> eval I cls fuel s env e \<noteq> None"
    and "list_all (fuel_ok cls fuel) es \<Longrightarrow> eval_args I cls fuel s env es \<noteq> None"
    and "fuel_ok cls fuel e \<Longrightarrow> eval_comp I cls fuel s env e x vs \<noteq> None"
    and "list_all (\<lambda>st. fuel_ok cls fuel (stmt_expr st)) body \<Longrightarrow>
           exec I cls fuel s env body \<noteq> None"
    and "call_ok cls fuel m \<Longrightarrow> call I cls fuel s m ws \<noteq> None"
proof (induction I cls fuel s env e and I cls fuel s env es and I cls fuel s env e x vs
    and I cls fuel s env body and I cls fuel s m ws
    rule: eval_eval_args_eval_comp_exec_call.induct)
  case (4 I cls fuel s env f es)
  then show ?case by (fastforce split: option.splits sum.splits)
next
  case (5 I cls fuel s env m es)
  then show ?case by (fastforce simp: call_ok_def split: option.splits sum.splits)
next
  case (6 I cls fuel s env e x it)
  then show ?case by (fastforce split: option.splits sum.splits)
next
  case (8 I cls fuel s env e es)
  then show ?case by (fastforce split: option.splits sum.splits)
next
  case (10 I cls fuel s env e x v vs)
  then show ?case by (fastforce split: option.splits sum.splits)
next
  case (13 I cls fuel s env a e rest)
  then show ?case by (fastforce split: option.splits sum.splits)
next
  case (14 I cls s m vs)
  then show ?case by (simp add: call_ok_def)
next
  case (15 I cls fuel s m vs)
  then show ?case by (fastforce simp: call_ok_def split: option.splits)
qed simp_all

lemma Crystal_methods_read_only: "read_only Crystal_methods"
  by (auto simp: read_only_def Crystal_methods_def split: if_splits)

lemma Crystal_methods_call_ok:
  "m \<in> set query_methods \<Longrightarrow> call_ok Crystal_methods (Suc (Suc n)) m"
  by (auto simp: query_methods_def call_ok_def Crystal_methods_def)

lemma r_on_lattice_store:
  "call adding_interp Crystal_methods (Suc (Suc 0)) lattice_store ''r'' [1, 0, 0] =
     Some (Inr 7, lattice_store)"
  by (simp add: Crystal_methods_def adding_interp_def lattice_store_def)

text \<open>
  Claim C6. Every call of \<open>r\<close>, \<open>G\<close>, \<open>wavelength\<close>, \<open>energy\<close>, \<open>miller\<close> and \<open>sfunc\<close>
  returns, with a value or an exception, and leaves the object as it was: every attribute
  of the store, the inherited ones included, is unchanged. The methods keep no state, so
  the same call on the object the first call left returns the same result.
\<close>

theorem methods_read_only:
  "(call I Crystal_methods fuel s m args = Some (res, s') \<longrightarrow>
      s' = s \<and> call I Crystal_methods fuel s' m args = Some (res, s')) \<and>
   (m \<in> set query_methods \<and> 2 \<le> fuel \<longrightarrow>
      (\<exists>res. call I Crystal_methods fuel s m args = Some (res, s)))"
proof -
  have 1: "s' = s" if "call I Crystal_methods fuel s m args = Some (res, s')"
    using frame(5)[OF Crystal_methods_read_only that] .
  have 2: "\<exists>res. call I Crystal_methods fuel s m args = Some (res, s)"
    if m: "m \<in> set query_methods" and f: "2 \<le> fuel"
  proof -
    from f obtain n where n: "fuel = Suc (Suc n)"
      by (metis Suc_le_D numeral_2_eq_2 Suc_le_mono)
    from enough_fuel(5)[OF Crystal_methods_call_ok[OF m, of n], of I s args]
    obtain res t where c: "call I Crystal_methods fuel s m args = Some (res, t)"
      unfolding n by auto
    from frame(5)[OF Crystal_methods_read_only c] c show ?thesis by auto
  qed
  from 1 2 show ?thesis by blast
qed

theorem methods_read_only_witness:
  "call adding_interp Crystal_methods (Suc (Suc 0)) lattice_store ''r'' [1, 0, 0] =
     Some (Inr 7, lattice_store) \<and>
   ''r'' \<in> set query_methods \<and> 2 \<le> Suc (Suc 0) \<and>
   (\<exists>res. call adding_interp Crystal_methods (Suc (Suc 0)) lattice_store ''r'' [1, 0, 0] =
      Some (res, lattice_store))"
proof -
  have m: "''r'' \<in> set query_methods" by (simp add: query_methods_def)
  have f: "2 \<le> Suc (Suc 0)" by simp
  from methods_read_only[of adding_interp "Suc (Suc 0)" lattice_store "''r''" "[1, 0, 0]"
      "Inr 7" lattice_store] r_on_lattice_store m f
  show ?thesis by blast
qed

end
